theory Spec2Isabelle
  imports Main
begin

section \<open>The host system as the script sees it\<close>

text \<open>
  The script \<^verbatim>\<open>add_files_to_xcode.py\<close> touches the outside world through three library
  calls only: \<^verbatim>\<open>print\<close>, \<^verbatim>\<open>os.path.join\<close> and \<^verbatim>\<open>os.path.exists\<close>. Python strings are
  modelled as the byte strings of their UTF-8 encoding; every path of the script is plain
  ASCII, and every text it prints holds a character outside ASCII.

  A filesystem is what \<^verbatim>\<open>stat(2)\<close> answers for a path (symbolic links followed): either
  an error number or the kind of the entry found there.
\<close>

datatype file_kind = Regular | Directory | Special

datatype errno = ENOENT | EACCES | ENOTDIR | ELOOP | ENAMETOOLONG | EIO

datatype py_exception = OSError errno | ValueError | UnicodeEncodeError

type_synonym path = string

type_synonym filesystem = "path \<Rightarrow> errno + file_kind"

text \<open>
  The world threaded through a run: the filesystem, the arguments of the \<^verbatim>\<open>print\<close> calls
  that have succeeded so far (one list element per call), the trace of paths handed to
  \<^verbatim>\<open>stat\<close>, and the standard output the process was started with: for each text, the
  exception that writing it raises there, if it raises one.
\<close>

record world =
  disk :: filesystem
  stdout :: "string list"
  stat_calls :: "path list"
  stdout_error :: "string \<Rightarrow> py_exception option"

definition initial_world_on :: "(string \<Rightarrow> py_exception option) \<Rightarrow> filesystem \<Rightarrow> world" where
  "initial_world_on out d = \<lparr>disk = d, stdout = [], stat_calls = [], stdout_error = out\<rparr>"

text \<open>A standard output that takes every text, such as a UTF-8 terminal.\<close>

definition accepting :: "string \<Rightarrow> py_exception option" where
  "accepting s = None"

text \<open>
  A standard output whose encoding is ASCII (the C locale): a text with a character outside
  ASCII, that is, with a byte above 127 in its UTF-8 form, cannot be encoded.
\<close>

definition ascii_only :: "string \<Rightarrow> py_exception option" where
  "ascii_only s =
     (if list_all (\<lambda>c. of_char c < (128::nat)) s then None else Some UnicodeEncodeError)"

definition initial_world :: "filesystem \<Rightarrow> world" where
  "initial_world d = initial_world_on accepting d"

definition newline :: char where
  "newline = CHR 0x0A"

text \<open>
  \<^verbatim>\<open>print(s)\<close> writes \<open>s\<close> and a line feed to standard output. When standard output does
  not take the text, \<^verbatim>\<open>print\<close> raises and nothing of the text is written. The filesystem is
  not involved.
\<close>

definition print :: "string \<Rightarrow> world \<Rightarrow> (py_exception + unit) \<times> world" where
  "print s w =
     (case stdout_error w s of
        Some e \<Rightarrow> (Inl e, w)
      | None \<Rightarrow> (Inr (), w\<lparr>stdout := stdout w @ [s]\<rparr>))"

text \<open>The characters that have reached the console.\<close>

definition console :: "world \<Rightarrow> string" where
  "console w = concat (map (\<lambda>s. s @ [newline]) (stdout w))"

subsection \<open>\<^verbatim>\<open>os.stat\<close> and \<^verbatim>\<open>os.path.exists\<close>\<close>

text \<open>
  \<^verbatim>\<open>os.stat(p)\<close> raises \<^verbatim>\<open>ValueError\<close> for a path with an embedded null byte (before any
  system call is made), raises \<^verbatim>\<open>OSError\<close> with the error number when the system call
  fails, and returns the entry otherwise. It only reads.
\<close>

definition os_stat :: "path \<Rightarrow> world \<Rightarrow> (py_exception + file_kind) \<times> world" where
  "os_stat p w =
     (if CHR 0x00 \<in> set p then (Inl ValueError, w)
      else ((case disk w p of Inl e \<Rightarrow> Inl (OSError e) | Inr k \<Rightarrow> Inr k),
            w\<lparr>stat_calls := stat_calls w @ [p]\<rparr>))"

text \<open>
  \<^verbatim>\<open>
  def exists(path):
      try:
          os.stat(path)
      except (OSError, ValueError):
          return False
      return True
  \<close>
  An exception of another class would pass through the \<^verbatim>\<open>except\<close> clause.
\<close>

definition os_path_exists :: "path \<Rightarrow> world \<Rightarrow> (py_exception + bool) \<times> world" where
  "os_path_exists p w =
     (case os_stat p w of
        (Inl (OSError _), w') \<Rightarrow> (Inr False, w')
      | (Inl ValueError, w') \<Rightarrow> (Inr False, w')
      | (Inl UnicodeEncodeError, w') \<Rightarrow> (Inl UnicodeEncodeError, w')
      | (Inr _, w') \<Rightarrow> (Inr True, w'))"

subsection \<open>\<^verbatim>\<open>os.path.join\<close> (POSIX)\<close>

text \<open>
  The project root is a path of a POSIX system, where \<^verbatim>\<open>os.path\<close> is \<^verbatim>\<open>posixpath\<close>:
  \<^verbatim>\<open>
  def join(a, *p):
      sep = '/'
      path = a
      for b in p:
          if b.startswith(sep):
              path = b
          elif not path or path.endswith(sep):
              path += b
          else:
              path += sep + b
      return path
  \<close>
\<close>

definition sep :: string where
  "sep = ''/''"

definition startswith :: "string \<Rightarrow> string \<Rightarrow> bool" where
  "startswith s pre = (take (length pre) s = pre)"

definition endswith :: "string \<Rightarrow> string \<Rightarrow> bool" where
  "endswith s suf = (length suf \<le> length s \<and> drop (length s - length suf) s = suf)"

fun join_loop :: "path \<Rightarrow> path list \<Rightarrow> path" where
  "join_loop path [] = path"
| "join_loop path (b # p) =
     (if startswith b sep then join_loop b p
      else if path = [] \<or> endswith path sep then join_loop (path @ b) p
      else join_loop (path @ sep @ b) p)"

definition os_path_join :: "path \<Rightarrow> path list \<Rightarrow> path" where
  "os_path_join a p = join_loop a p"

section \<open>The script\<close>

definition files_to_add :: "path list" where
  "files_to_add =
     [''ios/SmartCityGuide/Models/OverpassPOI.swift'',
      ''ios/SmartCityGuide/Services/OverpassAPIService.swift'']"

definition project_root :: path where
  "project_root = ''/Users/dengelma/develop/private/smart-city-guide''"

definition banner :: string where
  "banner = [CHR 0xF0, CHR 0x9F, CHR 0x9A, CHR 0x80] @ '' Adding new files to Xcode project...''"

definition exists_prefix :: string where
  "exists_prefix = [CHR 0xE2, CHR 0x9C, CHR 0x85] @ '' File exists: ''"

definition not_found_prefix :: string where
  "not_found_prefix = [CHR 0xE2, CHR 0x9D, CHR 0x8C] @ '' File not found: ''"

text \<open>The two f-strings of the loop body.\<close>

definition exists_line :: "path \<Rightarrow> string" where
  "exists_line file_path = exists_prefix @ file_path"

definition not_found_line :: "path \<Rightarrow> string" where
  "not_found_line file_path = not_found_prefix @ file_path"

text \<open>
  The triple-quoted literal of the last \<^verbatim>\<open>print\<close>: it opens with a line feed, and every
  line of it, the last one too, ends with one.
\<close>

definition manual_steps :: string where
  "manual_steps = concat (map (\<lambda>l. l @ [newline])
     ['''',
      [CHR 0xF0, CHR 0x9F, CHR 0x93, CHR 0x9D] @ '' Manual Steps Required:'',
      '''',
      ''1. Open Xcode project: /Users/dengelma/develop/private/smart-city-guide/ios/SmartCityGuide.xcodeproj'',
      '''',
      ''2. Add these files to the project:'',
      ''   - Right-click on '' @ [CHR 0x27] @ ''Models'' @ [CHR 0x27] @ '' group ''
         @ [CHR 0xE2, CHR 0x86, CHR 0x92] @ '' Add Files to '' @ [CHR 0x22] @ ''SmartCityGuide'' @ [CHR 0x22],
      ''   - Select: ios/SmartCityGuide/Models/OverpassPOI.swift'',
      ''   '',
      ''   - Right-click on '' @ [CHR 0x27] @ ''Services'' @ [CHR 0x27] @ '' group ''
         @ [CHR 0xE2, CHR 0x86, CHR 0x92] @ '' Add Files to '' @ [CHR 0x22] @ ''SmartCityGuide'' @ [CHR 0x22],
      ''   - Select: ios/SmartCityGuide/Services/OverpassAPIService.swift'',
      '''',
      ''3. Make sure both files are added to the SmartCityGuide target'',
      '''',
      ''4. Build the project again'',
      '''',
      ''Alternatively, we can try to build again - sometimes Xcode auto-detects new files.''])"

text \<open>
  The \<^verbatim>\<open>for\<close> loop of \<^verbatim>\<open>main\<close>. \<open>Inr (Some 1)\<close> is the \<^verbatim>\<open>return 1\<close> inside the loop, which
  leaves \<^verbatim>\<open>main\<close> at once; \<open>Inr None\<close> means the loop ran to its end; \<open>Inl e\<close> is an
  exception raised by a call of the loop body, which nothing in the script catches.
\<close>

fun check_files :: "path list \<Rightarrow> world \<Rightarrow> (py_exception + int option) \<times> world" where
  "check_files [] w = (Inr None, w)"
| "check_files (file_path # rest) w =
     (let full_path = os_path_join project_root [file_path] in
      case os_path_exists full_path w of
        (Inl e, w1) \<Rightarrow> (Inl e, w1)
      | (Inr True, w1) \<Rightarrow>
          (case print (exists_line file_path) w1 of
             (Inl e, w2) \<Rightarrow> (Inl e, w2)
           | (Inr _, w2) \<Rightarrow> check_files rest w2)
      | (Inr False, w1) \<Rightarrow>
          (case print (not_found_line file_path) w1 of
             (Inl e, w2) \<Rightarrow> (Inl e, w2)
           | (Inr _, w2) \<Rightarrow> (Inr (Some 1), w2)))"

definition main :: "world \<Rightarrow> (py_exception + int) \<times> world" where
  "main w =
     (case print banner w of
        (Inl e, w0) \<Rightarrow> (Inl e, w0)
      | (Inr _, w0) \<Rightarrow>
          (case check_files files_to_add w0 of
             (Inl e, w1) \<Rightarrow> (Inl e, w1)
           | (Inr (Some rc), w1) \<Rightarrow> (Inr rc, w1)
           | (Inr None, w1) \<Rightarrow>
               (case print manual_steps w1 of
                  (Inl e, w2) \<Rightarrow> (Inl e, w2)
                | (Inr _, w2) \<Rightarrow> (Inr 0, w2))))"

text \<open>
  \<^verbatim>\<open>sys.exit(main())\<close>: the integer returned by \<^verbatim>\<open>main\<close> becomes the exit code of the
  process. An exception that leaves \<^verbatim>\<open>main\<close> is caught nowhere: the interpreter reports it on
  standard error and the exit code is 1.
\<close>

definition exit_status :: "py_exception + int \<Rightarrow> int" where
  "exit_status r = (case r of Inl e \<Rightarrow> 1 | Inr rc \<Rightarrow> rc)"

text \<open>
  A fresh process on filesystem \<open>d\<close>, with a standard output that takes every text. The
  properties stated for every filesystem are stated of this run.
\<close>

definition run_script :: "filesystem \<Rightarrow> (py_exception + int) \<times> world" where
  "run_script d = main (initial_world d)"

definition exit_code :: "filesystem \<Rightarrow> int" where
  "exit_code d = exit_status (fst (run_script d))"

definition final_world :: "filesystem \<Rightarrow> world" where
  "final_world d = snd (run_script d)"


section \<open>Vocabulary of the specification\<close>

text \<open>
  The specification speaks of the first and the second configured file, of the absolute
  path tested for a relative one, and of a path at which an entry exists for the process:
  \<^verbatim>\<open>stat\<close> succeeds there, whatever kind of entry it finds.
\<close>

definition model_file :: path where
  "model_file = files_to_add ! 0"

definition service_file :: path where
  "service_file = files_to_add ! 1"

definition full_path :: "path \<Rightarrow> path" where
  "full_path P = os_path_join project_root [P]"

definition entry_exists :: "filesystem \<Rightarrow> path \<Rightarrow> bool" where
  "entry_exists d p = (case d p of Inl _ \<Rightarrow> False | Inr _ \<Rightarrow> True)"

text \<open>The per-file lines are recognised by the fixed text in front of the path.\<close>

definition is_exists_line :: "string \<Rightarrow> bool" where
  "is_exists_line l = startswith l exists_prefix"

definition is_not_found_line :: "string \<Rightarrow> bool" where
  "is_not_found_line l = startswith l not_found_prefix"

definition is_per_file_line :: "string \<Rightarrow> bool" where
  "is_per_file_line l = (is_exists_line l \<or> is_not_found_line l)"

subsection \<open>Concrete filesystems\<close>

definition model_on_disk :: path where
  "model_on_disk =
     ''/Users/dengelma/develop/private/smart-city-guide/ios/SmartCityGuide/Models/OverpassPOI.swift''"

definition service_on_disk :: path where
  "service_on_disk =
     ''/Users/dengelma/develop/private/smart-city-guide/ios/SmartCityGuide/Services/OverpassAPIService.swift''"

text \<open>A filesystem holding exactly the listed entries; \<^verbatim>\<open>stat\<close> of anything else is \<open>ENOENT\<close>.\<close>

definition fs_of :: "(path \<times> file_kind) list \<Rightarrow> filesystem" where
  "fs_of entries p = (case map_of entries p of None \<Rightarrow> Inl ENOENT | Some k \<Rightarrow> Inr k)"

definition fs_both_present :: filesystem where
  "fs_both_present = fs_of [(model_on_disk, Regular), (service_on_disk, Regular)]"

definition fs_nothing :: filesystem where
  "fs_nothing = fs_of []"

definition fs_only_service :: filesystem where
  "fs_only_service = fs_of [(service_on_disk, Regular)]"

definition fs_only_model :: filesystem where
  "fs_only_model = fs_of [(model_on_disk, Regular)]"

definition fs_model_is_directory :: filesystem where
  "fs_model_is_directory = fs_of [(model_on_disk, Directory), (service_on_disk, Regular)]"

definition fs_service_denied :: filesystem where
  "fs_service_denied p = (if p = service_on_disk then Inl EACCES else fs_both_present p)"

text \<open>
  The model file is in place; of the service file there is only an entry under its relative
  name, and the root directory itself.
\<close>

definition fs_relative_decoys :: filesystem where
  "fs_relative_decoys =
     fs_of [(model_on_disk, Regular),
            (''ios/SmartCityGuide/Services/OverpassAPIService.swift'', Regular),
            (''/Users/dengelma/develop/private/smart-city-guide'', Directory)]"

subsection \<open>What is stored, and what the process can reach\<close>

text \<open>
  A volume: the entries stored on it, by absolute path, and the directories that the process
  has no permission to search. \<^verbatim>\<open>stat\<close> of a path below such a directory fails with
  \<open>EACCES\<close>, whatever is stored at the path; of any other path it answers with the entry
  stored there, and with \<open>ENOENT\<close> when there is none.
\<close>

record volume =
  stored :: "(path \<times> file_kind) list"
  unsearchable :: "path list"

definition on_disk :: "volume \<Rightarrow> path \<Rightarrow> bool" where
  "on_disk V p = (map_of (stored V) p \<noteq> None)"

definition below :: "path \<Rightarrow> path \<Rightarrow> bool" where
  "below p dir = startswith p (dir @ sep)"

definition stat_of :: "volume \<Rightarrow> filesystem" where
  "stat_of V p = (if list_ex (below p) (unsearchable V) then Inl EACCES else fs_of (stored V) p)"

definition models_dir :: path where
  "models_dir = ''/Users/dengelma/develop/private/smart-city-guide/ios/SmartCityGuide/Models''"

definition services_dir :: path where
  "services_dir = ''/Users/dengelma/develop/private/smart-city-guide/ios/SmartCityGuide/Services''"

text \<open>Both files are stored; the directory of the service file may not be searched.\<close>

definition vol_services_unsearchable :: volume where
  "vol_services_unsearchable =
     \<lparr>stored = [(models_dir, Directory), (services_dir, Directory),
                (model_on_disk, Regular), (service_on_disk, Regular)],
      unsearchable = [services_dir]\<rparr>"

text \<open>
  The model file is stored, in a directory that may not be searched; the service file is
  not stored.
\<close>

definition vol_models_unsearchable :: volume where
  "vol_models_unsearchable =
     \<lparr>stored = [(models_dir, Directory), (model_on_disk, Regular)],
      unsearchable = [models_dir]\<rparr>"

subsection \<open>Lines, texts and transcripts\<close>

text \<open>A line names a relative path when the path stands at its end.\<close>

definition names :: "string \<Rightarrow> path \<Rightarrow> bool" where
  "names l P = endswith l P"

text \<open>The texts that a run of the script can hand to \<^verbatim>\<open>print\<close>.\<close>

definition script_texts :: "string list" where
  "script_texts =
     [banner] @ map exists_line files_to_add @ map not_found_line files_to_add @ [manual_steps]"

definition accepts_script :: "world \<Rightarrow> bool" where
  "accepts_script w = list_all (\<lambda>s. stdout_error w s = None) script_texts"

text \<open>The second world is the first with more text printed and more paths tested.\<close>

definition only_output_added :: "world \<Rightarrow> world \<Rightarrow> bool" where
  "only_output_added w w' =
     (\<exists>out calls. w' = w\<lparr>stdout := stdout w @ out, stat_calls := stat_calls w @ calls\<rparr>)"

text \<open>
  What a terminal shows, byte for byte, when both files are found and when only the second
  is not, written out from the text of the script.
\<close>

definition transcript_all_present :: string where
  "transcript_all_present = concat (map (\<lambda>l. l @ [newline])
     [[CHR 0xF0, CHR 0x9F, CHR 0x9A, CHR 0x80] @ '' Adding new files to Xcode project...'',
      [CHR 0xE2, CHR 0x9C, CHR 0x85]
         @ '' File exists: ios/SmartCityGuide/Models/OverpassPOI.swift'',
      [CHR 0xE2, CHR 0x9C, CHR 0x85]
         @ '' File exists: ios/SmartCityGuide/Services/OverpassAPIService.swift'',
      '''',
      [CHR 0xF0, CHR 0x9F, CHR 0x93, CHR 0x9D] @ '' Manual Steps Required:'',
      '''',
      ''1. Open Xcode project: /Users/dengelma/develop/private/smart-city-guide/ios/SmartCityGuide.xcodeproj'',
      '''',
      ''2. Add these files to the project:'',
      ''   - Right-click on '' @ [CHR 0x27] @ ''Models'' @ [CHR 0x27] @ '' group ''
         @ [CHR 0xE2, CHR 0x86, CHR 0x92] @ '' Add Files to '' @ [CHR 0x22]
         @ ''SmartCityGuide'' @ [CHR 0x22],
      ''   - Select: ios/SmartCityGuide/Models/OverpassPOI.swift'',
      ''   '',
      ''   - Right-click on '' @ [CHR 0x27] @ ''Services'' @ [CHR 0x27] @ '' group ''
         @ [CHR 0xE2, CHR 0x86, CHR 0x92] @ '' Add Files to '' @ [CHR 0x22]
         @ ''SmartCityGuide'' @ [CHR 0x22],
      ''   - Select: ios/SmartCityGuide/Services/OverpassAPIService.swift'',
      '''',
      ''3. Make sure both files are added to the SmartCityGuide target'',
      '''',
      ''4. Build the project again'',
      '''',
      ''Alternatively, we can try to build again - sometimes Xcode auto-detects new files.'',
      ''''])"

definition transcript_second_missing :: string where
  "transcript_second_missing = concat (map (\<lambda>l. l @ [newline])
     [[CHR 0xF0, CHR 0x9F, CHR 0x9A, CHR 0x80] @ '' Adding new files to Xcode project...'',
      [CHR 0xE2, CHR 0x9C, CHR 0x85]
         @ '' File exists: ios/SmartCityGuide/Models/OverpassPOI.swift'',
      [CHR 0xE2, CHR 0x9D, CHR 0x8C]
         @ '' File not found: ios/SmartCityGuide/Services/OverpassAPIService.swift''])"

section \<open>Library calls\<close>

lemma endswith_sep: "endswith a sep \<longleftrightarrow> a \<noteq> [] \<and> last a = CHR ''/''"
  by (cases a rule: rev_cases) (simp_all add: endswith_def sep_def)

lemma join_relative:
  "a \<noteq> [] \<Longrightarrow> last a \<noteq> CHR ''/'' \<Longrightarrow> \<not> startswith b sep \<Longrightarrow> os_path_join a [b] = a @ sep @ b"
  by (simp add: os_path_join_def endswith_sep)

lemma project_root_shape: "project_root \<noteq> [] \<and> last project_root \<noteq> CHR ''/''"
  by (simp add: project_root_def)

lemma full_path_relative: "\<not> startswith P sep \<Longrightarrow> full_path P = project_root @ sep @ P"
  unfolding full_path_def using project_root_shape by (simp add: join_relative)

lemma files_to_add_eq: "files_to_add = [model_file, service_file]"
  by (simp add: files_to_add_def model_file_def service_file_def)

lemma model_file_relative: "\<not> startswith model_file sep"
  by (simp add: model_file_def files_to_add_def startswith_def sep_def)

lemma service_file_relative: "\<not> startswith service_file sep"
  by (simp add: service_file_def files_to_add_def startswith_def sep_def)

lemma full_path_model: "full_path model_file = model_on_disk"
  by (simp add: full_path_relative model_file_relative)
     (simp add: project_root_def sep_def model_file_def files_to_add_def model_on_disk_def)

lemma full_path_service: "full_path service_file = service_on_disk"
  by (simp add: full_path_relative service_file_relative)
     (simp add: project_root_def sep_def service_file_def files_to_add_def service_on_disk_def)

lemma on_disk_distinct: "model_on_disk \<noteq> service_on_disk" "service_on_disk \<noteq> model_on_disk"
  by (simp_all add: model_on_disk_def service_on_disk_def)

lemma on_disk_no_nul: "CHR 0x00 \<notin> set model_on_disk" "CHR 0x00 \<notin> set service_on_disk"
  by (simp_all add: model_on_disk_def service_on_disk_def)

text \<open>\<^verbatim>\<open>os.stat\<close> raises nothing that \<^verbatim>\<open>os.path.exists\<close> lets through.\<close>

lemma os_path_exists_result:
  "\<exists>b calls. os_path_exists p w = (Inr b, w\<lparr>stat_calls := stat_calls w @ calls\<rparr>)"
proof (cases "CHR 0x00 \<in> set p")
  case True
  then have "os_path_exists p w = (Inr False, w\<lparr>stat_calls := stat_calls w @ []\<rparr>)"
    by (simp add: os_path_exists_def os_stat_def)
  then show ?thesis by blast
next
  case False
  then have "os_path_exists p w =
      (Inr (case disk w p of Inl e \<Rightarrow> False | Inr k \<Rightarrow> True), w\<lparr>stat_calls := stat_calls w @ [p]\<rparr>)"
    by (simp add: os_path_exists_def os_stat_def split: sum.splits)
  then show ?thesis by blast
qed

lemma os_path_exists_eq:
  "CHR 0x00 \<notin> set p \<Longrightarrow>
   os_path_exists p w = (Inr (entry_exists (disk w) p), w\<lparr>stat_calls := stat_calls w @ [p]\<rparr>)"
  by (simp add: os_path_exists_def os_stat_def entry_exists_def split: sum.splits)

subsection \<open>Worlds that differ in what was printed and tested\<close>

lemma only_output_added_refl: "only_output_added w w"
proof -
  have "w = w\<lparr>stdout := stdout w @ [], stat_calls := stat_calls w @ []\<rparr>" by simp
  then show ?thesis unfolding only_output_added_def by blast
qed

lemma only_output_added_trans:
  assumes "only_output_added w w'" and "only_output_added w' w''"
  shows "only_output_added w w''"
proof -
  from assms(1) obtain out calls where
    1: "w' = w\<lparr>stdout := stdout w @ out, stat_calls := stat_calls w @ calls\<rparr>"
    unfolding only_output_added_def by blast
  from assms(2) obtain out' calls' where
    2: "w'' = w'\<lparr>stdout := stdout w' @ out', stat_calls := stat_calls w' @ calls'\<rparr>"
    unfolding only_output_added_def by blast
  have "w'' = w\<lparr>stdout := stdout w @ (out @ out'), stat_calls := stat_calls w @ (calls @ calls')\<rparr>"
    unfolding 2 1 by simp
  then show ?thesis unfolding only_output_added_def by blast
qed

lemma only_output_added_fields:
  assumes "only_output_added w w'"
  shows "disk w' = disk w" and "stdout_error w' = stdout_error w"
  using assms unfolding only_output_added_def by auto

lemma print_only_output_added: "only_output_added w (snd (print s w))"
proof (cases "stdout_error w s")
  case None
  then have "snd (print s w) = w\<lparr>stdout := stdout w @ [s], stat_calls := stat_calls w @ []\<rparr>"
    by (simp add: print_def)
  then show ?thesis unfolding only_output_added_def by blast
next
  case (Some e)
  then show ?thesis by (simp add: print_def only_output_added_refl)
qed

lemma os_path_exists_only_output_added: "only_output_added w (snd (os_path_exists p w))"
proof -
  from os_path_exists_result [of p w] obtain b calls where
    "os_path_exists p w = (Inr b, w\<lparr>stat_calls := stat_calls w @ calls\<rparr>)" by blast
  then have "snd (os_path_exists p w) =
      w\<lparr>stdout := stdout w @ [], stat_calls := stat_calls w @ calls\<rparr>"
    by simp
  then show ?thesis unfolding only_output_added_def by blast
qed

section \<open>The loop over an arbitrary list of files\<close>

lemma check_files_only_output_added: "only_output_added w (snd (check_files fs w))"
proof (induction fs arbitrary: w)
  case Nil
  show ?case by (simp add: only_output_added_refl)
next
  case (Cons file_path rest)
  let ?p = "os_path_join project_root [file_path]"
  obtain r1 w1 where ex: "os_path_exists ?p w = (r1, w1)"
    by (cases "os_path_exists ?p w")
  have step1: "only_output_added w w1"
    using os_path_exists_only_output_added [of w ?p] ex by simp
  show ?case
  proof (cases r1)
    case (Inl e)
    then show ?thesis using ex step1 by simp
  next
    case (Inr found)
    let ?line = "if found then exists_line file_path else not_found_line file_path"
    obtain r2 w2 where pr: "print ?line w1 = (r2, w2)"
      by (cases "print ?line w1")
    have step2: "only_output_added w w2"
      using only_output_added_trans [OF step1] print_only_output_added [of w1 ?line] pr by simp
    show ?thesis
    proof (cases r2)
      case (Inl e)
      then show ?thesis using ex Inr pr step2 by (cases found) simp_all
    next
      case ok: (Inr u)
      show ?thesis
      proof (cases found)
        case True
        then have "check_files (file_path # rest) w = check_files rest w2"
          using ex Inr pr ok by simp
        then show ?thesis
          using only_output_added_trans [OF step2 Cons.IH [of w2]] by simp
      next
        case False
        then show ?thesis using ex Inr pr ok step2 by simp
      qed
    qed
  qed
qed

text \<open>An exception that leaves the loop was raised by \<^verbatim>\<open>print\<close>, for a line of one of the files.\<close>

lemma check_files_exception:
  "fst (check_files fs w) = Inl e \<Longrightarrow>
   \<exists>P\<in>set fs. stdout_error w (exists_line P) = Some e \<or> stdout_error w (not_found_line P) = Some e"
proof (induction fs arbitrary: w)
  case Nil
  then show ?case by simp
next
  case (Cons file_path rest)
  let ?p = "os_path_join project_root [file_path]"
  from os_path_exists_result [of ?p w] obtain found calls where
    ex: "os_path_exists ?p w = (Inr found, w\<lparr>stat_calls := stat_calls w @ calls\<rparr>)" by blast
  let ?w1 = "w\<lparr>stat_calls := stat_calls w @ calls\<rparr>"
  show ?case
  proof (cases found)
    case False
    with ex Cons.prems have "stdout_error w (not_found_line file_path) = Some e"
      by (cases "stdout_error w (not_found_line file_path)") (simp_all add: print_def)
    then show ?thesis by simp
  next
    case True
    show ?thesis
    proof (cases "stdout_error w (exists_line file_path)")
      case (Some e')
      with ex True Cons.prems have "e' = e" by (simp add: print_def)
      with Some show ?thesis by simp
    next
      case None
      let ?w2 = "?w1\<lparr>stdout := stdout ?w1 @ [exists_line file_path]\<rparr>"
      from None ex True have "check_files (file_path # rest) w = check_files rest ?w2"
        by (simp add: print_def)
      with Cons.prems have "fst (check_files rest ?w2) = Inl e" by simp
      from Cons.IH [OF this] show ?thesis by simp
    qed
  qed
qed

text \<open>
  What the loop prints on a standard output that takes every text: an "exists" line for each
  file of an initial stretch \<open>ok\<close> of the list, and, when it returns early, one "not found"
  line for the file after that stretch.
\<close>

lemma check_files_stdout:
  assumes "stdout_error w = accepting"
  shows "\<exists>ok r. fst (check_files fs w) = Inr r
        \<and> stdout (snd (check_files fs w)) =
           stdout w @ map exists_line ok @
           (case r of None \<Rightarrow> [] | Some rc \<Rightarrow> [not_found_line (fs ! length ok)])
        \<and> (case r of None \<Rightarrow> ok = fs
            | Some rc \<Rightarrow> length ok < length fs \<and> ok = take (length ok) fs)"
  using assms
proof (induction fs arbitrary: w)
  case Nil
  show ?case by simp
next
  case (Cons file_path rest)
  let ?p = "os_path_join project_root [file_path]"
  from os_path_exists_result [of ?p w] obtain found calls where
    ex: "os_path_exists ?p w = (Inr found, w\<lparr>stat_calls := stat_calls w @ calls\<rparr>)" by blast
  let ?w1 = "w\<lparr>stat_calls := stat_calls w @ calls\<rparr>"
  have takes: "stdout_error w s = None" for s
    using Cons.prems by (simp add: accepting_def)
  show ?case
  proof (cases found)
    case True
    let ?w2 = "?w1\<lparr>stdout := stdout ?w1 @ [exists_line file_path]\<rparr>"
    have step: "check_files (file_path # rest) w = check_files rest ?w2"
      using ex True takes by (simp add: print_def)
    have "stdout_error ?w2 = accepting" using Cons.prems by simp
    from Cons.IH [OF this] obtain ok r where
      ok: "fst (check_files rest ?w2) = Inr r"
          "stdout (snd (check_files rest ?w2)) =
             stdout ?w2 @ map exists_line ok @
             (case r of None \<Rightarrow> [] | Some rc \<Rightarrow> [not_found_line (rest ! length ok)])"
          "case r of None \<Rightarrow> ok = rest
           | Some rc \<Rightarrow> length ok < length rest \<and> ok = take (length ok) rest"
      by blast
    show ?thesis
      apply (rule exI [of _ "file_path # ok"])
      apply (rule exI [of _ r])
      using ok unfolding step
      by (auto split: option.splits)
  next
    case False
    then have "check_files (file_path # rest) w =
        (Inr (Some 1), ?w1\<lparr>stdout := stdout ?w1 @ [not_found_line file_path]\<rparr>)"
      using ex takes by (simp add: print_def)
    then show ?thesis
      by (intro exI [of _ "[]"] exI [of _ "Some 1"]) simp
  qed
qed

section \<open>The run on the two configured files\<close>

lemma accepts_script_texts:
  assumes "accepts_script w"
  shows "stdout_error w banner = None" "stdout_error w manual_steps = None"
    "stdout_error w (exists_line model_file) = None"
    "stdout_error w (exists_line service_file) = None"
    "stdout_error w (not_found_line model_file) = None"
    "stdout_error w (not_found_line service_file) = None"
  using assms by (simp_all add: accepts_script_def script_texts_def files_to_add_eq)

lemma initial_world_accepts: "accepts_script (initial_world d)"
  by (simp add: accepts_script_def initial_world_def initial_world_on_def accepting_def
        list_all_iff)

lemma main_cases:
  assumes "accepts_script w"
  shows "main w =
    (if entry_exists (disk w) model_on_disk then
       if entry_exists (disk w) service_on_disk then
         (Inr 0, w\<lparr>stdout := stdout w @
             [banner, exists_line model_file, exists_line service_file, manual_steps],
           stat_calls := stat_calls w @ [model_on_disk, service_on_disk]\<rparr>)
       else
         (Inr 1, w\<lparr>stdout := stdout w @
             [banner, exists_line model_file, not_found_line service_file],
           stat_calls := stat_calls w @ [model_on_disk, service_on_disk]\<rparr>)
     else
       (Inr 1, w\<lparr>stdout := stdout w @ [banner, not_found_line model_file],
         stat_calls := stat_calls w @ [model_on_disk]\<rparr>))"
  unfolding main_def files_to_add_eq
  by (simp add: full_path_def [symmetric] full_path_model full_path_service
        os_path_exists_eq on_disk_no_nul print_def accepts_script_texts [OF assms])

lemma run_stdout:
  "stdout (final_world d) =
     (if entry_exists d model_on_disk then
        if entry_exists d service_on_disk then
          [banner, exists_line model_file, exists_line service_file, manual_steps]
        else [banner, exists_line model_file, not_found_line service_file]
      else [banner, not_found_line model_file])"
  by (simp add: final_world_def run_script_def main_cases [OF initial_world_accepts])
     (simp add: initial_world_def initial_world_on_def)

lemma run_stat_calls:
  "stat_calls (final_world d) =
     (if entry_exists d model_on_disk then [model_on_disk, service_on_disk] else [model_on_disk])"
  by (simp add: final_world_def run_script_def main_cases [OF initial_world_accepts])
     (simp add: initial_world_def initial_world_on_def)

lemma run_exit_code:
  "exit_code d = (if entry_exists d model_on_disk \<and> entry_exists d service_on_disk then 0 else 1)"
  by (simp add: exit_code_def exit_status_def run_script_def main_cases [OF initial_world_accepts])
     (simp add: initial_world_def initial_world_on_def)

lemma main_only_output_added: "only_output_added w (snd (main w))"
proof -
  obtain r0 w0 where p0: "print banner w = (r0, w0)" by (cases "print banner w")
  have s0: "only_output_added w w0" using print_only_output_added [of w banner] p0 by simp
  show ?thesis
  proof (cases r0)
    case (Inl e)
    then show ?thesis using p0 s0 by (simp add: main_def)
  next
    case (Inr u)
    obtain r1 w1 where c: "check_files files_to_add w0 = (r1, w1)"
      by (cases "check_files files_to_add w0")
    have s1: "only_output_added w w1"
      using only_output_added_trans [OF s0 check_files_only_output_added [of w0 files_to_add]] c
      by simp
    obtain r2 w2 where p2: "print manual_steps w1 = (r2, w2)"
      by (cases "print manual_steps w1")
    have s2: "only_output_added w w2"
      using only_output_added_trans [OF s1 print_only_output_added [of w1 manual_steps]] p2
      by simp
    show ?thesis
      using p0 Inr c p2 s1 s2
      by (auto simp: main_def split: sum.splits option.splits)
  qed
qed

lemma main_disk: "disk (snd (main w)) = disk w"
  using only_output_added_fields(1) [OF main_only_output_added] .

lemma run_disk: "disk (final_world d) = d"
  using main_disk [of "initial_world d"]
  by (simp add: final_world_def run_script_def initial_world_def initial_world_on_def)

subsection \<open>Telling the lines apart\<close>

lemma exists_line_kind: "is_exists_line (exists_line p)" "\<not> is_not_found_line (exists_line p)"
  by (simp_all add: is_exists_line_def is_not_found_line_def exists_line_def startswith_def
        exists_prefix_def not_found_prefix_def)

lemma not_found_line_kind: "is_not_found_line (not_found_line p)" "\<not> is_exists_line (not_found_line p)"
  by (simp_all add: is_exists_line_def is_not_found_line_def not_found_line_def startswith_def
        exists_prefix_def not_found_prefix_def)

lemma banner_kind: "\<not> is_exists_line banner" "\<not> is_not_found_line banner"
  by (simp_all add: is_exists_line_def is_not_found_line_def banner_def startswith_def
        exists_prefix_def not_found_prefix_def)

lemma manual_steps_kind: "\<not> is_exists_line manual_steps" "\<not> is_not_found_line manual_steps"
  by (simp_all add: is_exists_line_def is_not_found_line_def manual_steps_def startswith_def
        exists_prefix_def not_found_prefix_def newline_def)

lemma manual_steps_not_banner: "manual_steps \<noteq> banner"
  by (simp add: manual_steps_def banner_def newline_def)

lemma files_distinct: "model_file \<noteq> service_file"
  by (simp add: model_file_def service_file_def files_to_add_def)

lemma lines_distinct:
  "exists_line p \<noteq> not_found_line q" "not_found_line q \<noteq> exists_line p"
  "exists_line p \<noteq> banner" "exists_line p \<noteq> manual_steps"
  "not_found_line p \<noteq> banner" "not_found_line p \<noteq> manual_steps"
  "manual_steps \<noteq> exists_line p" "manual_steps \<noteq> not_found_line p"
  using exists_line_kind [of p] not_found_line_kind [of p] not_found_line_kind [of q]
    banner_kind manual_steps_kind
  by auto

lemma lines_inject:
  "exists_line p = exists_line q \<longleftrightarrow> p = q" "not_found_line p = not_found_line q \<longleftrightarrow> p = q"
  by (simp_all add: exists_line_def not_found_line_def)

lemma filter_not_found_exists: "filter is_not_found_line (map exists_line ok) = []"
  by (induction ok) (simp_all add: exists_line_kind)

lemma filter_per_file_exists: "filter is_per_file_line (map exists_line ok) = map exists_line ok"
  by (induction ok) (simp_all add: is_per_file_line_def exists_line_kind)

lemma fs_both_present_at:
  "fs_both_present model_on_disk = Inr Regular" "fs_both_present service_on_disk = Inr Regular"
  by (simp_all add: fs_both_present_def fs_of_def on_disk_distinct)

lemma fs_only_model_at:
  "fs_only_model model_on_disk = Inr Regular" "fs_only_model service_on_disk = Inl ENOENT"
  by (simp_all add: fs_only_model_def fs_of_def on_disk_distinct)

lemma fs_only_service_at:
  "fs_only_service model_on_disk = Inl ENOENT" "fs_only_service service_on_disk = Inr Regular"
  by (simp_all add: fs_only_service_def fs_of_def on_disk_distinct)

lemma fs_model_is_directory_at:
  "fs_model_is_directory model_on_disk = Inr Directory"
  "fs_model_is_directory service_on_disk = Inr Regular"
  by (simp_all add: fs_model_is_directory_def fs_of_def on_disk_distinct)

lemma fs_service_denied_at:
  "fs_service_denied model_on_disk = Inr Regular" "fs_service_denied service_on_disk = Inl EACCES"
  by (simp_all add: fs_service_denied_def fs_both_present_at on_disk_distinct)

lemma fs_relative_decoys_at:
  "fs_relative_decoys model_on_disk = Inr Regular" "fs_relative_decoys service_on_disk = Inl ENOENT"
  "fs_relative_decoys service_file = Inr Regular" "fs_relative_decoys project_root = Inr Directory"
  by (simp_all add: fs_relative_decoys_def fs_of_def model_on_disk_def service_on_disk_def
        service_file_def files_to_add_def project_root_def)


lemma names_line: "names (exists_line P) P" "names (not_found_line P) P"
  by (simp_all add: names_def endswith_def exists_line_def not_found_line_def)

lemma names_other:
  "\<not> names (exists_line model_file) service_file" "\<not> names (exists_line service_file) model_file"
  "\<not> names (not_found_line service_file) model_file"
  by (simp_all add: names_def endswith_def exists_line_def not_found_line_def exists_prefix_def
        not_found_prefix_def model_file_def service_file_def files_to_add_def)

lemma console_all_present:
  "concat (map (\<lambda>s. s @ [newline])
     [banner, exists_line model_file, exists_line service_file, manual_steps])
   = transcript_all_present"
  by (simp add: transcript_all_present_def banner_def exists_line_def exists_prefix_def
        manual_steps_def model_file_def service_file_def files_to_add_def)

lemma console_second_missing:
  "concat (map (\<lambda>s. s @ [newline])
     [banner, exists_line model_file, not_found_line service_file])
   = transcript_second_missing"
  by (simp add: transcript_second_missing_def banner_def exists_line_def exists_prefix_def
        not_found_line_def not_found_prefix_def model_file_def service_file_def files_to_add_def)

lemma dirs_above:
  "below model_on_disk models_dir" "below service_on_disk services_dir"
  "\<not> below model_on_disk services_dir"
  by (simp_all add: below_def startswith_def sep_def models_dir_def services_dir_def
        model_on_disk_def service_on_disk_def)

lemma vol_services_unsearchable_at:
  "on_disk vol_services_unsearchable model_on_disk"
  "on_disk vol_services_unsearchable service_on_disk"
  "stat_of vol_services_unsearchable model_on_disk = Inr Regular"
  "stat_of vol_services_unsearchable service_on_disk = Inl EACCES"
  by (simp_all add: vol_services_unsearchable_def on_disk_def stat_of_def fs_of_def dirs_above
        on_disk_distinct)
     (simp_all add: models_dir_def services_dir_def model_on_disk_def)

lemma vol_models_unsearchable_at:
  "on_disk vol_models_unsearchable model_on_disk"
  "\<not> on_disk vol_models_unsearchable service_on_disk"
  "stat_of vol_models_unsearchable model_on_disk = Inl EACCES"
  by (simp_all add: vol_models_unsearchable_def on_disk_def stat_of_def dirs_above
        on_disk_distinct)
     (simp_all add: models_dir_def service_on_disk_def)

lemma stat_of_succeeds:
  "entry_exists (stat_of V) p \<longleftrightarrow> on_disk V p \<and> \<not> list_ex (below p) (unsearchable V)"
  by (simp add: entry_exists_def stat_of_def on_disk_def fs_of_def split: option.splits)

lemma ascii_only_refuses_banner: "ascii_only banner = Some UnicodeEncodeError"
  by (simp add: ascii_only_def banner_def)

section \<open>Exit code\<close>

text \<open>
  C1, as the specification states it, fails: with both configured files stored under the
  root, the service file in a directory that the process may not search, the exit code
  is 1.
\<close>

theorem stored_but_unreachable_exit_code:
  "on_disk vol_services_unsearchable (os_path_join project_root [model_file])
   \<and> on_disk vol_services_unsearchable (os_path_join project_root [service_file])
   \<and> exit_code (stat_of vol_services_unsearchable) = 1
   \<and> exit_code (stat_of vol_services_unsearchable) \<noteq> 0"
  by (simp add: full_path_def [symmetric] full_path_model full_path_service run_exit_code
        entry_exists_def vol_services_unsearchable_at)

text \<open>
  C1, amended. For every filesystem, the exit code of the process is 0 exactly when \<^verbatim>\<open>stat\<close>
  succeeds at both configured relative paths joined to the project root, that is, when an
  entry is stored there and the process can reach it; when \<^verbatim>\<open>stat\<close> fails at one of them, the
  exit code is 1.
\<close>

theorem exit_code_iff_all_exist:
  "(exit_code d = 0 \<longleftrightarrow>
      (\<forall>P\<in>set files_to_add. entry_exists d (os_path_join project_root [P])))
   \<and> ((\<exists>P\<in>set files_to_add. \<not> entry_exists d (os_path_join project_root [P]))
        \<longrightarrow> exit_code d = 1)"
  by (simp add: run_exit_code files_to_add_eq full_path_def [symmetric]
        full_path_model full_path_service)

theorem exit_code_iff_all_exist_witness:
  "entry_exists fs_both_present (os_path_join project_root [model_file])
   \<and> entry_exists fs_both_present (os_path_join project_root [service_file])
   \<and> exit_code fs_both_present = 0
   \<and> \<not> entry_exists fs_only_model (os_path_join project_root [service_file])
   \<and> exit_code fs_only_model = 1"
proof -
  have present: "entry_exists fs_both_present (os_path_join project_root [model_file])"
      "entry_exists fs_both_present (os_path_join project_root [service_file])"
    by (simp_all add: full_path_def [symmetric] full_path_model full_path_service
          entry_exists_def fs_both_present_at)
  have missing: "\<not> entry_exists fs_only_model (os_path_join project_root [service_file])"
    by (simp add: full_path_def [symmetric] full_path_service entry_exists_def fs_only_model_at)
  show ?thesis
    using present missing
      exit_code_iff_all_exist [of fs_both_present] exit_code_iff_all_exist [of fs_only_model]
    by (simp add: files_to_add_eq)
qed

section \<open>How \<^verbatim>\<open>main\<close> ends\<close>

text \<open>
  C9, as stated, fails: on a standard output whose encoding is ASCII the first \<^verbatim>\<open>print\<close>
  raises, and \<^verbatim>\<open>main\<close> is left by that exception, with nothing printed and no path tested,
  whatever the filesystem holds; the exit code of the process is then 1 although both files
  are in place.
\<close>

theorem main_left_by_exception:
  "fst (main (initial_world_on ascii_only fs_both_present)) = Inl UnicodeEncodeError
   \<and> stdout (snd (main (initial_world_on ascii_only fs_both_present))) = []
   \<and> stat_calls (snd (main (initial_world_on ascii_only fs_both_present))) = []
   \<and> exit_status (fst (main (initial_world_on ascii_only fs_both_present))) = 1"
  by (simp add: main_def print_def initial_world_on_def ascii_only_refuses_banner
        exit_status_def)

text \<open>
  C9, amended. For every filesystem, on a standard output that takes the texts of the script,
  \<^verbatim>\<open>main\<close> returns, and what it returns is 0 or 1. On any standard output, the existence check
  raises nothing, and an exception that leaves \<^verbatim>\<open>main\<close> is one that \<^verbatim>\<open>print\<close> raised for a text
  of the script.
\<close>

theorem main_returns_0_or_1:
  "(accepts_script w \<longrightarrow> fst (main w) = Inr 0 \<or> fst (main w) = Inr 1)
   \<and> (\<exists>found. fst (os_path_exists p w) = Inr found)
   \<and> (fst (main w) = Inl e \<longrightarrow> (\<exists>s\<in>set script_texts. stdout_error w s = Some e))"
proof -
  have returns: "fst (main w) = Inr 0 \<or> fst (main w) = Inr 1" if "accepts_script w"
    by (simp add: main_cases [OF that])
  have check: "\<exists>found. fst (os_path_exists p w) = Inr found"
    using os_path_exists_result [of p w] by auto
  have raised: "\<exists>s\<in>set script_texts. stdout_error w s = Some e" if left: "fst (main w) = Inl e"
  proof (cases "stdout_error w banner")
    case (Some e')
    with left have "e' = e" by (simp add: main_def print_def)
    with Some show ?thesis by (auto simp: script_texts_def)
  next
    case None
    let ?w0 = "w\<lparr>stdout := stdout w @ [banner]\<rparr>"
    obtain r1 w1 where loop: "check_files files_to_add ?w0 = (r1, w1)"
      by (cases "check_files files_to_add ?w0")
    have same: "stdout_error w1 = stdout_error w"
      using only_output_added_fields(2) [OF check_files_only_output_added [of ?w0 files_to_add]]
        loop by simp
    show ?thesis
    proof (cases r1)
      case (Inl e')
      with left None loop have "e' = e" by (simp add: main_def print_def)
      with Inl loop have "fst (check_files files_to_add ?w0) = Inl e" by simp
      from check_files_exception [OF this] show ?thesis
        by (auto simp: script_texts_def)
    next
      case (Inr r)
      show ?thesis
      proof (cases r)
        case (Some rc)
        with left None loop Inr show ?thesis by (simp add: main_def print_def)
      next
        case none: None
        with left None loop Inr same have "stdout_error w manual_steps = Some e"
          by (cases "stdout_error w manual_steps") (simp_all add: main_def print_def)
        then show ?thesis by (auto simp: script_texts_def)
      qed
    qed
  qed
  show ?thesis using returns check raised by blast
qed

theorem main_returns_0_or_1_witness:
  "accepts_script (initial_world fs_nothing)
   \<and> fst (main (initial_world fs_nothing)) = Inr 1
   \<and> accepts_script (initial_world fs_both_present)
   \<and> fst (main (initial_world fs_both_present)) = Inr 0
   \<and> fst (main (initial_world_on ascii_only fs_both_present)) = Inl UnicodeEncodeError
   \<and> (\<exists>s\<in>set script_texts.
        stdout_error (initial_world_on ascii_only fs_both_present) s = Some UnicodeEncodeError)
   \<and> stdout_error (initial_world_on ascii_only fs_both_present) banner = Some UnicodeEncodeError"
proof -
  have takes: "accepts_script (initial_world fs_nothing)"
      "accepts_script (initial_world fs_both_present)"
    by (rule initial_world_accepts)+
  have not_0: "fst (main (initial_world fs_nothing)) \<noteq> Inr 0"
    unfolding main_cases [OF takes(1)]
    by (simp add: initial_world_def initial_world_on_def entry_exists_def fs_nothing_def
          fs_of_def)
  have not_1: "fst (main (initial_world fs_both_present)) \<noteq> Inr 1"
    unfolding main_cases [OF takes(2)]
    by (simp add: initial_world_def initial_world_on_def entry_exists_def fs_both_present_at)
  from takes(1) not_0 main_returns_0_or_1 [of "initial_world fs_nothing"]
  have one: "fst (main (initial_world fs_nothing)) = Inr 1" by blast
  from takes(2) not_1 main_returns_0_or_1 [of "initial_world fs_both_present"]
  have zero: "fst (main (initial_world fs_both_present)) = Inr 0" by blast
  have left: "fst (main (initial_world_on ascii_only fs_both_present)) = Inl UnicodeEncodeError"
    by (simp add: main_def print_def initial_world_on_def ascii_only_refuses_banner)
  from left main_returns_0_or_1 [of "initial_world_on ascii_only fs_both_present"]
  have listed: "\<exists>s\<in>set script_texts.
      stdout_error (initial_world_on ascii_only fs_both_present) s = Some UnicodeEncodeError"
    by blast
  have refused: "stdout_error (initial_world_on ascii_only fs_both_present) banner
      = Some UnicodeEncodeError"
    by (simp add: initial_world_on_def ascii_only_refuses_banner)
  show ?thesis
    by (intro conjI) (fact takes one zero left listed refused)+
qed

section \<open>The three scenarios\<close>



text \<open>
  C3, as the specification states it, fails: with both configured files stored under the
  root, the service file in a directory that the process may not search, the run prints an
  "exists" line for the model file only, then a "not found" line for the service file and no
  manual steps, and the exit code is 1.
\<close>

theorem stored_but_unreachable_not_all_present:
  "on_disk vol_services_unsearchable (full_path model_file)
   \<and> on_disk vol_services_unsearchable (full_path service_file)
   \<and> filter is_exists_line (stdout (final_world (stat_of vol_services_unsearchable)))
       = [exists_line model_file]
   \<and> is_not_found_line (last (stdout (final_world (stat_of vol_services_unsearchable))))
   \<and> names (last (stdout (final_world (stat_of vol_services_unsearchable)))) service_file
   \<and> console (final_world (stat_of vol_services_unsearchable)) = transcript_second_missing
   \<and> exit_code (stat_of vol_services_unsearchable) = 1"
proof -
  have out: "stdout (final_world (stat_of vol_services_unsearchable)) =
      [banner, exists_line model_file, not_found_line service_file]"
    by (simp add: run_stdout entry_exists_def vol_services_unsearchable_at)
  show ?thesis
    unfolding console_def out console_second_missing
    by (simp add: full_path_model full_path_service vol_services_unsearchable_at run_exit_code
          entry_exists_def banner_kind exists_line_kind not_found_line_kind names_line)
qed

text \<open>
  C3, amended. When \<^verbatim>\<open>stat\<close> succeeds at the joined paths of both configured files (each is
  stored under the root and the process can reach it), the run prints, after the banner,
  exactly two "exists" lines, the first naming the model file and the second the service
  file, then the manual steps, and the exit code is 0. What reaches the terminal is, byte for
  byte, the transcript written out from the text of the script.
\<close>

theorem all_files_present:
  assumes "entry_exists d (full_path model_file)" and "entry_exists d (full_path service_file)"
  shows "stdout (final_world d) =
           [banner, exists_line model_file, exists_line service_file, manual_steps]
     \<and> filter is_per_file_line (stdout (final_world d)) =
           [exists_line model_file, exists_line service_file]
     \<and> filter is_per_file_line (stdout (final_world d)) =
           [stdout (final_world d) ! 1, stdout (final_world d) ! 2]
     \<and> is_exists_line (stdout (final_world d) ! 1)
     \<and> names (stdout (final_world d) ! 1) model_file
     \<and> \<not> names (stdout (final_world d) ! 1) service_file
     \<and> is_exists_line (stdout (final_world d) ! 2)
     \<and> names (stdout (final_world d) ! 2) service_file
     \<and> \<not> names (stdout (final_world d) ! 2) model_file
     \<and> filter is_not_found_line (stdout (final_world d)) = []
     \<and> console (final_world d) = transcript_all_present
     \<and> exit_code d = 0"
proof -
  from assms have present: "entry_exists d model_on_disk" "entry_exists d service_on_disk"
    by (simp_all add: full_path_model full_path_service)
  then have out: "stdout (final_world d) =
      [banner, exists_line model_file, exists_line service_file, manual_steps]"
    by (simp add: run_stdout)
  show ?thesis
    unfolding console_def out console_all_present using present
    by (simp add: is_per_file_line_def banner_kind exists_line_kind manual_steps_kind
          names_line names_other run_exit_code)
qed

theorem all_files_present_witness:
  "entry_exists fs_both_present (full_path model_file)
   \<and> entry_exists fs_both_present (full_path service_file)
   \<and> stdout (final_world fs_both_present) =
       [banner, exists_line model_file, exists_line service_file, manual_steps]
   \<and> console (final_world fs_both_present) = transcript_all_present
   \<and> exit_code fs_both_present = 0"
proof -
  have present: "entry_exists fs_both_present (full_path model_file)"
      "entry_exists fs_both_present (full_path service_file)"
    by (simp_all add: full_path_model full_path_service entry_exists_def fs_both_present_at)
  show ?thesis
    using present all_files_present [OF present] by simp
qed

text \<open>
  C4, as the specification states it, fails: with the model file stored under the root, in a
  directory that the process may not search, and the service file not stored, the run prints
  no "exists" line; its one per-file line is a "not found" line that names the model file,
  and the service file is never tested.
\<close>

theorem stored_but_unreachable_first_file:
  "on_disk vol_models_unsearchable (full_path model_file)
   \<and> \<not> on_disk vol_models_unsearchable (full_path service_file)
   \<and> filter is_exists_line (stdout (final_world (stat_of vol_models_unsearchable))) = []
   \<and> filter is_per_file_line (stdout (final_world (stat_of vol_models_unsearchable)))
       = [not_found_line model_file]
   \<and> is_not_found_line (last (stdout (final_world (stat_of vol_models_unsearchable))))
   \<and> names (last (stdout (final_world (stat_of vol_models_unsearchable)))) model_file
   \<and> stat_calls (final_world (stat_of vol_models_unsearchable)) = [full_path model_file]
   \<and> exit_code (stat_of vol_models_unsearchable) = 1"
proof -
  have out: "stdout (final_world (stat_of vol_models_unsearchable)) =
      [banner, not_found_line model_file]"
    by (simp add: run_stdout entry_exists_def vol_models_unsearchable_at)
  show ?thesis
    unfolding out
    by (simp add: full_path_model full_path_service vol_models_unsearchable_at run_exit_code
          run_stat_calls entry_exists_def is_per_file_line_def banner_kind not_found_line_kind
          names_line)
qed

text \<open>
  C4, amended. When \<^verbatim>\<open>stat\<close> succeeds at the joined path of the first configured file (it is
  stored under the root and the process can reach it) and fails at that of the second, the
  run prints, after the banner, an "exists" line that names the first file and then a
  "not found" line that names the second; these are its only per-file lines; the manual
  steps are not printed; the exit code is 1. What reaches the terminal is, byte for byte,
  the transcript written out from the text of the script.
\<close>

theorem second_file_missing:
  assumes "entry_exists d (full_path model_file)" and "\<not> entry_exists d (full_path service_file)"
  shows "stdout (final_world d) =
           [banner, exists_line model_file, not_found_line service_file]
     \<and> filter is_per_file_line (stdout (final_world d)) =
           [stdout (final_world d) ! 1, stdout (final_world d) ! 2]
     \<and> is_exists_line (stdout (final_world d) ! 1)
     \<and> names (stdout (final_world d) ! 1) model_file
     \<and> \<not> names (stdout (final_world d) ! 1) service_file
     \<and> is_not_found_line (stdout (final_world d) ! 2)
     \<and> names (stdout (final_world d) ! 2) service_file
     \<and> \<not> names (stdout (final_world d) ! 2) model_file
     \<and> console (final_world d) = transcript_second_missing
     \<and> manual_steps \<notin> set (stdout (final_world d))
     \<and> exit_code d = 1"
proof -
  from assms have state: "entry_exists d model_on_disk" "\<not> entry_exists d service_on_disk"
    by (simp_all add: full_path_model full_path_service)
  then have out: "stdout (final_world d) =
      [banner, exists_line model_file, not_found_line service_file]"
    by (simp add: run_stdout)
  have "manual_steps \<noteq> exists_line model_file" "manual_steps \<noteq> not_found_line service_file"
    using manual_steps_kind exists_line_kind [of model_file] not_found_line_kind [of service_file]
    by auto
  then show ?thesis
    unfolding console_def out console_second_missing using state
    by (simp add: manual_steps_not_banner run_exit_code is_per_file_line_def banner_kind
          exists_line_kind not_found_line_kind names_line names_other)
qed

theorem second_file_missing_witness:
  "entry_exists fs_only_model (full_path model_file)
   \<and> \<not> entry_exists fs_only_model (full_path service_file)
   \<and> stdout (final_world fs_only_model) =
       [banner, exists_line model_file, not_found_line service_file]
   \<and> console (final_world fs_only_model) = transcript_second_missing
   \<and> exit_code fs_only_model = 1"
proof -
  have here: "entry_exists fs_only_model (full_path model_file)"
    by (simp add: full_path_model entry_exists_def fs_only_model_at)
  have gone: "\<not> entry_exists fs_only_model (full_path service_file)"
    by (simp add: full_path_service entry_exists_def fs_only_model_at)
  show ?thesis
    using here gone second_file_missing [OF here gone] by simp
qed

section \<open>Path construction\<close>

text \<open>
  C5. For each configured relative path \<open>P\<close>, the path handed to the existence test is
  \<^verbatim>\<open>os.path.join\<close> of the project root and \<open>P\<close>, which is the root, a slash and \<open>P\<close> with all
  its segments. The paths tested in a run are the joined paths of the configured files, in
  order, the first one or both; neither a relative path by itself nor the root by itself is
  ever tested, and two filesystems that agree at the joined paths give the same output and
  exit code, whatever else they hold.
\<close>

theorem existence_test_on_joined_path:
  "(\<forall>P\<in>set files_to_add.
      os_path_join project_root [P] = project_root @ ''/'' @ P
      \<and> P \<notin> set (stat_calls (final_world d)))
   \<and> project_root \<notin> set (stat_calls (final_world d))
   \<and> (stat_calls (final_world d) = map (\<lambda>P. os_path_join project_root [P]) (take 1 files_to_add)
      \<or> stat_calls (final_world d) = map (\<lambda>P. os_path_join project_root [P]) files_to_add)
   \<and> ((\<forall>P\<in>set files_to_add.
          d (os_path_join project_root [P]) = d' (os_path_join project_root [P]))
        \<longrightarrow> stdout (final_world d) = stdout (final_world d') \<and> exit_code d = exit_code d')"
proof -
  have joined: "os_path_join project_root [P] = project_root @ ''/'' @ P"
    if "P \<in> set files_to_add" for P
    using that full_path_relative [of P] model_file_relative service_file_relative
    by (auto simp: files_to_add_eq full_path_def sep_def)
  have calls: "stat_calls (final_world d) = [model_on_disk]
      \<or> stat_calls (final_world d) = [model_on_disk, service_on_disk]"
    by (simp add: run_stat_calls)
  have relative: "model_file \<noteq> model_on_disk" "model_file \<noteq> service_on_disk"
      "service_file \<noteq> model_on_disk" "service_file \<noteq> service_on_disk"
    by (simp_all add: model_file_def service_file_def files_to_add_def
          model_on_disk_def service_on_disk_def)
  have root: "project_root \<noteq> model_on_disk" "project_root \<noteq> service_on_disk"
    by (simp_all add: project_root_def model_on_disk_def service_on_disk_def)
  have untested: "P \<notin> set (stat_calls (final_world d))" if "P \<in> set files_to_add" for P
    using that calls relative by (auto simp: files_to_add_eq)
  have no_root: "project_root \<notin> set (stat_calls (final_world d))"
    using calls root by auto
  have trace: "stat_calls (final_world d) = map (\<lambda>P. os_path_join project_root [P]) (take 1 files_to_add)
      \<or> stat_calls (final_world d) = map (\<lambda>P. os_path_join project_root [P]) files_to_add"
    using calls
    by (simp add: files_to_add_eq full_path_def [symmetric] full_path_model full_path_service)
  have same: "stdout (final_world d) = stdout (final_world d') \<and> exit_code d = exit_code d'"
    if "\<forall>P\<in>set files_to_add. d (os_path_join project_root [P]) = d' (os_path_join project_root [P])"
  proof -
    from that have "d model_on_disk = d' model_on_disk" "d service_on_disk = d' service_on_disk"
      by (simp_all add: files_to_add_eq full_path_def [symmetric] full_path_model full_path_service)
    then show ?thesis
      by (simp add: run_stdout run_exit_code entry_exists_def)
  qed
  show ?thesis using joined untested no_root trace same by blast
qed

theorem existence_test_on_joined_path_witness:
  "os_path_join project_root [service_file] = project_root @ ''/'' @ service_file
   \<and> fs_relative_decoys service_file = Inr Regular
   \<and> fs_relative_decoys project_root = Inr Directory
   \<and> fs_only_model (os_path_join project_root [model_file])
       = fs_relative_decoys (os_path_join project_root [model_file])
   \<and> fs_only_model (os_path_join project_root [service_file])
       = fs_relative_decoys (os_path_join project_root [service_file])
   \<and> stat_calls (final_world fs_relative_decoys) = [model_on_disk, service_on_disk]
   \<and> service_file \<notin> set (stat_calls (final_world fs_relative_decoys))
   \<and> project_root \<notin> set (stat_calls (final_world fs_relative_decoys))
   \<and> stdout (final_world fs_relative_decoys) = stdout (final_world fs_only_model)
   \<and> exit_code fs_relative_decoys = exit_code fs_only_model
   \<and> exit_code fs_relative_decoys = 1"
proof -
  have agree: "fs_only_model (os_path_join project_root [model_file])
        = fs_relative_decoys (os_path_join project_root [model_file])"
      "fs_only_model (os_path_join project_root [service_file])
        = fs_relative_decoys (os_path_join project_root [service_file])"
    by (simp_all add: full_path_def [symmetric] full_path_model full_path_service
          fs_only_model_at fs_relative_decoys_at)
  have calls: "stat_calls (final_world fs_relative_decoys) = [model_on_disk, service_on_disk]"
    by (simp add: run_stat_calls entry_exists_def fs_relative_decoys_at)
  have code: "exit_code fs_relative_decoys = 1"
    by (simp add: run_exit_code entry_exists_def fs_relative_decoys_at)
  have configured: "service_file \<in> set files_to_add" "model_file \<in> set files_to_add"
    by (simp_all add: files_to_add_eq)
  note run = existence_test_on_joined_path [of fs_relative_decoys fs_only_model]
  from agree have "\<forall>P\<in>set files_to_add.
      fs_relative_decoys (os_path_join project_root [P]) = fs_only_model (os_path_join project_root [P])"
    by (simp add: files_to_add_eq)
  with run have same: "stdout (final_world fs_relative_decoys) = stdout (final_world fs_only_model)"
      "exit_code fs_relative_decoys = exit_code fs_only_model"
    by blast+
  from run configured have joined:
      "os_path_join project_root [service_file] = project_root @ ''/'' @ service_file"
      "service_file \<notin> set (stat_calls (final_world fs_relative_decoys))"
    by blast+
  from run have no_root: "project_root \<notin> set (stat_calls (final_world fs_relative_decoys))"
    by blast
  show ?thesis
    by (intro conjI) (fact joined fs_relative_decoys_at agree calls no_root same code)+
qed

section \<open>Repeating a run, and what a run leaves behind\<close>

text \<open>
  C7. A second run, started on the filesystem that the first run has left, writes the same
  characters to its console and ends with the same exit code as the first.
\<close>

theorem rerun_identical:
  "console (final_world (disk (final_world d))) = console (final_world d)
   \<and> stdout (final_world (disk (final_world d))) = stdout (final_world d)
   \<and> exit_code (disk (final_world d)) = exit_code d"
  by (simp add: run_disk)

theorem rerun_identical_witness:
  "exit_code (disk (final_world fs_only_model)) = 1
   \<and> stdout (final_world (disk (final_world fs_only_model)))
       = [banner, exists_line model_file, not_found_line service_file]"
proof -
  have "exit_code fs_only_model = 1"
    by (simp add: run_exit_code entry_exists_def fs_only_model_at)
  moreover have "stdout (final_world fs_only_model)
      = [banner, exists_line model_file, not_found_line service_file]"
    by (simp add: run_stdout entry_exists_def fs_only_model_at)
  ultimately show ?thesis
    using rerun_identical [of fs_only_model] by simp
qed

text \<open>
  C8. Whatever the filesystem and whatever the outcome, \<^verbatim>\<open>main\<close> leaves the filesystem as it
  found it: every path, under the project root or not, answers \<^verbatim>\<open>stat\<close> after the run as
  before. The world after the run is the world before it with more text on standard output
  (and a longer record of the paths that were tested).
\<close>

theorem run_leaves_filesystem_unchanged:
  "disk (snd (main w)) = disk w
   \<and> disk (final_world d) = d
   \<and> (\<exists>out calls. snd (main w) =
         w\<lparr>stdout := stdout w @ out, stat_calls := stat_calls w @ calls\<rparr>)"
proof -
  from main_only_output_added [of w] have "\<exists>out calls. snd (main w) =
      w\<lparr>stdout := stdout w @ out, stat_calls := stat_calls w @ calls\<rparr>"
    unfolding only_output_added_def .
  then show ?thesis by (simp add: main_disk run_disk)
qed

theorem run_leaves_filesystem_unchanged_witness:
  "disk (final_world fs_service_denied) service_on_disk = Inl EACCES
   \<and> disk (final_world fs_service_denied) model_on_disk = Inr Regular
   \<and> disk (final_world fs_both_present) = fs_both_present"
  using run_leaves_filesystem_unchanged [of "initial_world fs_service_denied" fs_service_denied]
    run_leaves_filesystem_unchanged [of "initial_world fs_both_present" fs_both_present]
  by (simp add: fs_service_denied_at)

section \<open>What counts as not found\<close>

text \<open>
  C6, as the specification states it, fails: a configured path at which \<^verbatim>\<open>stat\<close> finds a
  directory is reported as existing. With a directory in the place of the model file the run
  prints an "exists" line for it and ends with exit code 0, while the same path with no
  entry at all makes the run fail.
\<close>

theorem directory_counts_as_existing:
  "fs_model_is_directory (full_path model_file) = Inr Directory
   \<and> stdout (final_world fs_model_is_directory) =
       [banner, exists_line model_file, exists_line service_file, manual_steps]
   \<and> not_found_line model_file \<notin> set (stdout (final_world fs_model_is_directory))
   \<and> exit_code fs_model_is_directory = 0
   \<and> fs_only_service (full_path model_file) = Inl ENOENT
   \<and> exit_code fs_only_service = 1"
proof -
  have out: "stdout (final_world fs_model_is_directory) =
      [banner, exists_line model_file, exists_line service_file, manual_steps]"
    by (simp add: run_stdout entry_exists_def fs_model_is_directory_at)
  show ?thesis
    unfolding out
    by (simp add: full_path_model fs_model_is_directory_at fs_only_service_at run_exit_code
          entry_exists_def lines_distinct)
qed

text \<open>
  C6, amended. The existence check makes no distinction between the ways in which \<^verbatim>\<open>stat\<close>
  can fail, among them "path does not exist" and "permission denied": whenever a configured
  path resolves to such a failure, the run ends with a "not found" line, prints no manual
  steps and has exit code 1; when that path is one the run tests, the line names it and the
  test is the last of the run. A configured path that resolves to a directory, or to an
  entry of any other kind, counts as existing: when the run tests it, it prints an "exists"
  line for it and no "not found" line.
\<close>

theorem stat_failure_is_not_found:
  "(P \<in> set files_to_add \<and> d (full_path P) = Inl e
      \<longrightarrow> exit_code d = 1
          \<and> is_not_found_line (last (stdout (final_world d)))
          \<and> manual_steps \<notin> set (stdout (final_world d)))
   \<and> (P \<in> set files_to_add \<and> d (full_path P) = Inl e
       \<and> full_path P \<in> set (stat_calls (final_world d))
      \<longrightarrow> last (stdout (final_world d)) = not_found_line P
          \<and> last (stat_calls (final_world d)) = full_path P)
   \<and> (P \<in> set files_to_add \<and> d (full_path P) = Inr k
       \<and> full_path P \<in> set (stat_calls (final_world d))
      \<longrightarrow> exists_line P \<in> set (stdout (final_world d))
          \<and> not_found_line P \<notin> set (stdout (final_world d)))"
proof (cases "P \<in> set files_to_add")
  case False
  then show ?thesis by simp
next
  case True
  then consider (model) "P = model_file" | (service) "P = service_file"
    by (auto simp: files_to_add_eq)
  then show ?thesis
  proof cases
    case model
    show ?thesis
      unfolding model
      by (simp add: full_path_model run_stdout run_stat_calls run_exit_code entry_exists_def
            lines_distinct lines_inject not_found_line_kind files_distinct
            manual_steps_not_banner)
  next
    case service
    have other: "model_file \<noteq> service_file" "service_file \<noteq> model_file"
      using files_distinct by auto
    show ?thesis
      unfolding service
      by (simp add: full_path_service run_stdout run_stat_calls run_exit_code entry_exists_def
            lines_distinct lines_inject not_found_line_kind other on_disk_distinct
            manual_steps_not_banner split: sum.splits)
  qed
qed

theorem stat_failure_is_not_found_witness:
  "service_file \<in> set files_to_add
   \<and> fs_service_denied (full_path service_file) = Inl EACCES
   \<and> full_path service_file \<in> set (stat_calls (final_world fs_service_denied))
   \<and> last (stdout (final_world fs_service_denied)) = not_found_line service_file
   \<and> exit_code fs_service_denied = 1
   \<and> fs_only_model (full_path service_file) = Inl ENOENT
   \<and> full_path service_file \<in> set (stat_calls (final_world fs_only_model))
   \<and> last (stdout (final_world fs_only_model)) = not_found_line service_file
   \<and> exit_code fs_only_model = 1
   \<and> model_file \<in> set files_to_add
   \<and> fs_model_is_directory (full_path model_file) = Inr Directory
   \<and> full_path model_file \<in> set (stat_calls (final_world fs_model_is_directory))
   \<and> exists_line model_file \<in> set (stdout (final_world fs_model_is_directory))"
proof -
  have configured: "service_file \<in> set files_to_add" "model_file \<in> set files_to_add"
    by (simp_all add: files_to_add_eq)
  have denied: "fs_service_denied (full_path service_file) = Inl EACCES"
      "full_path service_file \<in> set (stat_calls (final_world fs_service_denied))"
    by (simp_all add: full_path_service fs_service_denied_at run_stat_calls entry_exists_def)
  have absent: "fs_only_model (full_path service_file) = Inl ENOENT"
      "full_path service_file \<in> set (stat_calls (final_world fs_only_model))"
    by (simp_all add: full_path_service fs_only_model_at run_stat_calls entry_exists_def)
  have directory: "fs_model_is_directory (full_path model_file) = Inr Directory"
      "full_path model_file \<in> set (stat_calls (final_world fs_model_is_directory))"
    by (simp_all add: full_path_model fs_model_is_directory_at run_stat_calls entry_exists_def)
  from configured denied
    stat_failure_is_not_found [of service_file fs_service_denied EACCES Regular]
  have a: "last (stdout (final_world fs_service_denied)) = not_found_line service_file"
      "exit_code fs_service_denied = 1"
    by blast+
  from configured absent
    stat_failure_is_not_found [of service_file fs_only_model ENOENT Regular]
  have b: "last (stdout (final_world fs_only_model)) = not_found_line service_file"
      "exit_code fs_only_model = 1"
    by blast+
  from configured directory
    stat_failure_is_not_found [of model_file fs_model_is_directory ENOENT Directory]
  have c: "exists_line model_file \<in> set (stdout (final_world fs_model_is_directory))"
    by blast
  show ?thesis
    by (intro conjI) (fact configured denied absent directory a b c)+
qed

section \<open>The "not found" line\<close>

text \<open>
  C10. In every run at most one "not found" line is printed, and a "not found" line that is
  printed is the last of the per-file lines of the run (and the last line of all).
\<close>

theorem at_most_one_not_found_line:
  "length (filter is_not_found_line (stdout (final_world d))) \<le> 1
   \<and> (\<forall>l\<in>set (stdout (final_world d)). is_not_found_line l \<longrightarrow>
         last (filter is_per_file_line (stdout (final_world d))) = l
         \<and> last (stdout (final_world d)) = l)"
proof -
  let ?w0 = "(initial_world d)\<lparr>stdout := [banner]\<rparr>"
  have start: "print banner (initial_world d) = (Inr (), ?w0)"
    by (simp add: print_def initial_world_def initial_world_on_def accepting_def)
  have takes: "stdout_error ?w0 = accepting"
    by (simp add: initial_world_def initial_world_on_def)
  from check_files_stdout [OF takes, of files_to_add] obtain ok r where
    loop: "fst (check_files files_to_add ?w0) = Inr r"
    and printed: "stdout (snd (check_files files_to_add ?w0)) = [banner] @ map exists_line ok @
      (case r of None \<Rightarrow> [] | Some rc \<Rightarrow> [not_found_line (files_to_add ! length ok)])"
    by auto
  obtain w' where run: "check_files files_to_add ?w0 = (Inr r, w')"
    using loop by (cases "check_files files_to_add ?w0") simp
  have takes': "stdout_error w' manual_steps = None"
    using only_output_added_fields(2) [OF check_files_only_output_added [of ?w0 files_to_add]]
      run takes by (simp add: accepting_def)
  show ?thesis
  proof (cases r)
    case None
    with run printed takes' start have out: "stdout (final_world d) =
        [banner] @ map exists_line ok @ [manual_steps]"
      by (simp add: final_world_def run_script_def main_def print_def)
    show ?thesis
      unfolding out
      by (auto simp: filter_not_found_exists banner_kind manual_steps_kind exists_line_kind)
  next
    case (Some rc)
    with run printed start have out: "stdout (final_world d) =
        [banner] @ map exists_line ok @ [not_found_line (files_to_add ! length ok)]"
      by (simp add: final_world_def run_script_def main_def)
    show ?thesis
      unfolding out
      by (auto simp: filter_not_found_exists filter_per_file_exists is_per_file_line_def
            banner_kind exists_line_kind not_found_line_kind)
  qed
qed

theorem at_most_one_not_found_line_witness:
  "not_found_line model_file \<in> set (stdout (final_world fs_nothing))
   \<and> is_not_found_line (not_found_line model_file)
   \<and> last (filter is_per_file_line (stdout (final_world fs_nothing))) = not_found_line model_file
   \<and> last (stdout (final_world fs_nothing)) = not_found_line model_file
   \<and> length (filter is_not_found_line (stdout (final_world fs_both_present))) \<le> 1"
proof -
  have printed: "not_found_line model_file \<in> set (stdout (final_world fs_nothing))"
    by (simp add: run_stdout entry_exists_def fs_nothing_def fs_of_def)
  have kind: "is_not_found_line (not_found_line model_file)"
    by (simp add: not_found_line_kind)
  from printed kind at_most_one_not_found_line [of fs_nothing]
  have last: "last (filter is_per_file_line (stdout (final_world fs_nothing))) = not_found_line model_file"
      "last (stdout (final_world fs_nothing)) = not_found_line model_file"
    by blast+
  from at_most_one_not_found_line [of fs_both_present]
  have count: "length (filter is_not_found_line (stdout (final_world fs_both_present))) \<le> 1"
    by blast
  show ?thesis
    by (intro conjI) (fact printed kind last count)+
qed

end
